theory Spec2Isabelle
  imports Complex_Main
begin

section \<open>Python values\<close>

text \<open>
  A decoded token is a Python dict from claim names to JSON values. The scalar JSON
  values are modelled (null, booleans, integers, strings); fractional numbers, arrays and
  objects are left out of the value type.
\<close>

datatype jval = JNull | JBool bool | JInt int | JStr string

type_synonym payload = "string \<rightharpoonup> jval"

text \<open>Truthiness, as \<^verbatim>\<open>not x\<close> tests it.\<close>

fun truthy :: "jval \<Rightarrow> bool" where
  "truthy JNull = False"
| "truthy (JBool b) = b"
| "truthy (JInt i) = (i \<noteq> 0)"
| "truthy (JStr s) = (s \<noteq> [])"

text \<open>\<^verbatim>\<open>str(n)\<close> for integers: decimal digits, with a minus sign for negatives.\<close>

fun digits :: "nat \<Rightarrow> string" where
  "digits n = (if n < 10 then [char_of (48 + n)] else digits (n div 10) @ [char_of (48 + n mod 10)])"

declare digits.simps [simp del]

definition str_of_int :: "int \<Rightarrow> string" where
  "str_of_int i = (if i < 0 then CHR ''-'' # digits (nat (- i)) else digits (nat i))"

text \<open>What an f-string interpolates for a value: \<^verbatim>\<open>f"{x}"\<close>.\<close>

fun py_str :: "jval \<Rightarrow> string" where
  "py_str JNull = ''None''"
| "py_str (JBool b) = (if b then ''True'' else ''False'')"
| "py_str (JInt i) = str_of_int i"
| "py_str (JStr s) = s"

text \<open>
  A token arrives as a string or as \<^verbatim>\<open>None\<close> (a missing query parameter).
  \<^verbatim>\<open>not jwt_token\<close> holds for \<^verbatim>\<open>None\<close> and for the empty string.
\<close>

type_synonym token = "string option"

fun falsy_token :: "token \<Rightarrow> bool" where
  "falsy_token None = True"
| "falsy_token (Some t) = (t = [])"

fun py_str_token :: "token \<Rightarrow> string" where
  "py_str_token None = ''None''"
| "py_str_token (Some t) = t"

text \<open>
  \<^verbatim>\<open>os.getenv\<close> returns \<^verbatim>\<open>None\<close> for an unset variable; the claim names of a
  payload are strings, so \<^verbatim>\<open>None\<close> is never a key of it.
\<close>

fun py_lookup :: "payload \<Rightarrow> string option \<Rightarrow> jval option" where
  "py_lookup d None = None"
| "py_lookup d (Some k) = d k"

text \<open>
  \<^verbatim>\<open>current > expired_time\<close> for a number on the left: an integer or a boolean
  on the right compares by value (\<^verbatim>\<open>True\<close> is 1), \<^verbatim>\<open>None\<close> and strings raise
  \<^verbatim>\<open>TypeError\<close> (the result \<open>None\<close> here).
\<close>

fun py_gt :: "rat \<Rightarrow> jval \<Rightarrow> bool option" where
  "py_gt c (JInt e) = Some (c > of_int e)"
| "py_gt c (JBool b) = Some (c > (if b then 1 else 0))"
| "py_gt c JNull = None"
| "py_gt c (JStr s) = None"

text \<open>\<^verbatim>\<open>int(x)\<close> of a float truncates towards zero.\<close>

definition py_int :: "rat \<Rightarrow> int" where
  "py_int r = (if r \<ge> 0 then \<lfloor>r\<rfloor> else \<lceil>r\<rceil>)"

section \<open>Exceptions\<close>

text \<open>
  The exception classes of \<^verbatim>\<open>jwt_utils.py\<close> (all of them subclasses of
  \<^verbatim>\<open>JWTError\<close>), \<^verbatim>\<open>MissingTokenError\<close> of \<^verbatim>\<open>request_helpers.py\<close>, the
  built-in exceptions the code can raise, and an exception of the JWT library that no
  handler of \<^verbatim>\<open>jwt_utils.py\<close> catches. Only the class of an exception is modelled,
  not its message.
\<close>

datatype exn =
    JWTError
  | JWTAppIdMissingError
  | JWTPublicKeyNotFoundError
  | JWTPrivateKeyNotFoundError
  | BlacklistedTokenError
  | InvalidTokenError
  | InvalidClientTokenError
  | InvalidEmailTokenError
  | JWTExpired
  | MissingTokenError
  | KeyError
  | TypeError
  | FileNotFoundError
  | UncaughtLibraryError

text \<open>\<^verbatim>\<open>isinstance(e, JWTError)\<close>.\<close>

fun is_JWTError :: "exn \<Rightarrow> bool" where
  "is_JWTError JWTError = True"
| "is_JWTError JWTAppIdMissingError = True"
| "is_JWTError JWTPublicKeyNotFoundError = True"
| "is_JWTError JWTPrivateKeyNotFoundError = True"
| "is_JWTError BlacklistedTokenError = True"
| "is_JWTError InvalidTokenError = True"
| "is_JWTError InvalidClientTokenError = True"
| "is_JWTError InvalidEmailTokenError = True"
| "is_JWTError JWTExpired = True"
| "is_JWTError MissingTokenError = False"
| "is_JWTError KeyError = False"
| "is_JWTError TypeError = False"
| "is_JWTError FileNotFoundError = False"
| "is_JWTError UncaughtLibraryError = False"

text \<open>
  What the JWT library raises: an exception of the \<^verbatim>\<open>jwt.exceptions.InvalidTokenError\<close>
  family (\<^verbatim>\<open>DecodeError\<close> is one of its subclasses), or anything else.
\<close>

datatype jwt_exception = Lib_InvalidTokenError | Lib_OtherError

section \<open>Environment\<close>

text \<open>
  The environment variables, the clock (the value of
  \<^verbatim>\<open>datetime.utcnow().timestamp()\<close>, a float, hence a rational number) and the three
  entry points of the JWT library that the code calls: \<^verbatim>\<open>decode\<close> with
  \<^verbatim>\<open>verify_signature\<close> off, \<^verbatim>\<open>decode\<close> with a key and one allowed algorithm, and
  \<^verbatim>\<open>encode\<close>. The library is a parameter of the model.
\<close>

record env =
  MEMBRANE_APP_ID_FIELD :: "string option"
  MEMBRANE_REDIRECT_URL_FIELD :: "string option"
  MEMBRANE_EXPIRATION_FIELD :: "string option"
  MEMBRANE_ENCODE_ALGORITHM :: "string option"
  utcnow_timestamp :: rat
  jwt_decode_unverified :: "string \<Rightarrow> jwt_exception + payload"
  jwt_decode :: "string \<Rightarrow> string \<Rightarrow> string option \<Rightarrow> jwt_exception + payload"
  jwt_encode :: "payload \<Rightarrow> string \<Rightarrow> string option \<Rightarrow> jwt_exception + string"

text \<open>
  A key directory maps a file name to the text of that file; the path of a single key
  file is modelled by the text of the file, \<open>None\<close> when the file does not exist.
\<close>

type_synonym directory = "string \<rightharpoonup> string"
type_synonym path = "string option"

text \<open>The response of \<^verbatim>\<open>redirect(location)\<close> or \<^verbatim>\<open>redirect(location, code=...)\<close>.\<close>

datatype response = Redirect (location: jval) (code: "nat option")

section \<open>Client tokens\<close>

text \<open>
  The handler of \<^verbatim>\<open>decode_client_jwt_token\<close> turns the library's
  \<^verbatim>\<open>InvalidTokenError\<close> family into \<^verbatim>\<open>JWTError\<close>; anything else propagates.
\<close>

fun client_handler :: "jwt_exception \<Rightarrow> exn" where
  "client_handler Lib_InvalidTokenError = JWTError"
| "client_handler Lib_OtherError = UncaughtLibraryError"

definition decode_client_jwt_token :: "env \<Rightarrow> token \<Rightarrow> directory \<Rightarrow> exn + payload" where
  "decode_client_jwt_token env jwt_token keys_directory =
    (if falsy_token jwt_token then Inl JWTError
     else
       (case jwt_decode_unverified env (py_str_token jwt_token) of
          Inl error \<Rightarrow> Inl (client_handler error)
        | Inr unverified_decoded_token \<Rightarrow>
           (case py_lookup unverified_decoded_token (MEMBRANE_APP_ID_FIELD env) of
              None \<Rightarrow> Inl JWTAppIdMissingError
            | Some app_id \<Rightarrow>
               (case keys_directory (py_str app_id @ ''_public_key.pem'') of
                  None \<Rightarrow> Inl JWTPublicKeyNotFoundError
                | Some public_key \<Rightarrow>
                   (case jwt_decode env (py_str_token jwt_token) public_key
                           (MEMBRANE_ENCODE_ALGORITHM env) of
                      Inl error \<Rightarrow> Inl (client_handler error)
                    | Inr decoded_token \<Rightarrow>
                       (case py_lookup decoded_token (MEMBRANE_REDIRECT_URL_FIELD env) of
                          None \<Rightarrow> Inl KeyError
                        | Some redirect_url \<Rightarrow>
                           if \<not> truthy redirect_url then Inl JWTError
                           else
                             (case py_lookup decoded_token (MEMBRANE_EXPIRATION_FIELD env) of
                                None \<Rightarrow> Inl KeyError
                              | Some expired_time \<Rightarrow>
                                 (case py_gt (of_int (py_int (utcnow_timestamp env))) expired_time of
                                    None \<Rightarrow> Inl TypeError
                                  | Some expired \<Rightarrow>
                                     if expired then Inl JWTExpired
                                     else Inr decoded_token))))))))"

definition login_redirect_with_client_jwt ::
    "env \<Rightarrow> token \<Rightarrow> directory \<Rightarrow> string \<Rightarrow> exn + response" where
  "login_redirect_with_client_jwt env clientapp_token client_public_keys_directory membrane_frontend =
    (case decode_client_jwt_token env clientapp_token client_public_keys_directory of
       Inl error \<Rightarrow> Inl InvalidClientTokenError
     | Inr decoded \<Rightarrow>
        Inr (Redirect (JStr (membrane_frontend @ ''?token='' @ py_str_token clientapp_token)) None))"

section \<open>Email-verification tokens\<close>

fun email_handler :: "jwt_exception \<Rightarrow> exn" where
  "email_handler Lib_InvalidTokenError = InvalidTokenError"
| "email_handler Lib_OtherError = UncaughtLibraryError"

definition decode_email_verification_token ::
    "env \<Rightarrow> token \<Rightarrow> path \<Rightarrow> token set \<Rightarrow> exn + payload" where
  "decode_email_verification_token env jwt_token server_public_key_path token_blacklist =
    (if falsy_token jwt_token then Inl JWTError
     else if jwt_token \<in> token_blacklist then Inl BlacklistedTokenError
     else
       (case server_public_key_path of
          None \<Rightarrow> Inl FileNotFoundError
        | Some public_key \<Rightarrow>
           (case jwt_decode env (py_str_token jwt_token) public_key
                   (MEMBRANE_ENCODE_ALGORITHM env) of
              Inl error \<Rightarrow> Inl (email_handler error)
            | Inr decoded_token \<Rightarrow>
               if py_lookup decoded_token (MEMBRANE_REDIRECT_URL_FIELD env) = None
               then Inl JWTError
               else
                 (case py_lookup decoded_token (MEMBRANE_EXPIRATION_FIELD env) of
                    None \<Rightarrow> Inl KeyError
                  | Some expired_time \<Rightarrow>
                     (case py_gt (utcnow_timestamp env) expired_time of
                        None \<Rightarrow> Inl TypeError
                      | Some expired \<Rightarrow>
                         if expired then Inl JWTExpired
                         else Inr decoded_token)))))"

text \<open>
  \<^verbatim>\<open>process_email_verification_token\<close> mutates the blacklist it is given; the model
  returns the blacklist as it is when the call returns or raises. Its handler logs a
  \<^verbatim>\<open>JWTError\<close> and raises it again.
\<close>

definition process_email_verification_token ::
    "env \<Rightarrow> token \<Rightarrow> path \<Rightarrow> token set \<Rightarrow> (exn + response) \<times> token set" where
  "process_email_verification_token env email_token server_public_key token_blacklist =
    (case decode_email_verification_token env email_token server_public_key token_blacklist of
       Inl error \<Rightarrow> (Inl error, token_blacklist)
     | Inr decoded_email_token \<Rightarrow>
        (let token_blacklist' = insert email_token token_blacklist in
         (case py_lookup decoded_email_token (MEMBRANE_REDIRECT_URL_FIELD env) of
            None \<Rightarrow> (Inl KeyError, token_blacklist')
          | Some url \<Rightarrow>
             (Inr (Redirect (JStr (py_str url @ ''?token='' @ py_str_token email_token)) (Some 302)),
              token_blacklist'))))"

text \<open>
  The wrapper: a \<^verbatim>\<open>BlacklistedTokenError\<close> of the first attempt is logged and the code
  goes on to the second attempt, with an empty blacklist; an \<^verbatim>\<open>InvalidTokenError\<close> is
  logged and raised again; no handler catches any other exception. The handler of the
  second attempt catches \<^verbatim>\<open>InvalidTokenError\<close> and \<^verbatim>\<open>BlacklistedTokenError\<close> only.
\<close>

definition redirect_to_client_app_using_verification_token ::
    "env \<Rightarrow> token \<Rightarrow> path \<Rightarrow> token set \<Rightarrow> (exn + response) \<times> token set" where
  "redirect_to_client_app_using_verification_token env verification_token server_public_key token_blacklist =
    (case process_email_verification_token env verification_token server_public_key token_blacklist of
       (Inr resp, token_blacklist') \<Rightarrow> (Inr resp, token_blacklist')
     | (Inl error, token_blacklist') \<Rightarrow>
        if error = BlacklistedTokenError then
          (case decode_email_verification_token env verification_token server_public_key {} of
             Inl error2 \<Rightarrow>
               if error2 = InvalidTokenError \<or> error2 = BlacklistedTokenError
               then (Inl InvalidEmailTokenError, token_blacklist')
               else (Inl error2, token_blacklist')
           | Inr verification_decoded_token \<Rightarrow>
              (case py_lookup verification_decoded_token (MEMBRANE_REDIRECT_URL_FIELD env) of
                 None \<Rightarrow> (Inl KeyError, token_blacklist')
               | Some url \<Rightarrow> (Inr (Redirect url None), token_blacklist')))
        else if error = InvalidTokenError then (Inl error, token_blacklist')
        else (Inl error, token_blacklist'))"

definition encode_email_verification_token :: "env \<Rightarrow> payload \<Rightarrow> path \<Rightarrow> exn + string" where
  "encode_email_verification_token env payload server_private_key_path =
    (case server_private_key_path of
       None \<Rightarrow> Inl JWTPrivateKeyNotFoundError
     | Some private_key \<Rightarrow>
        (case jwt_encode env payload private_key (MEMBRANE_ENCODE_ALGORITHM env) of
           Inl error \<Rightarrow> Inl JWTError
         | Inr jwt_token \<Rightarrow> Inr jwt_token))"

section \<open>The conditions of acceptance\<close>

text \<open>
  The signature of an email-verification token verifies against the server public key
  when the key file can be read and the library's verified decode returns a payload.
\<close>

definition signature_verifies :: "env \<Rightarrow> token \<Rightarrow> path \<Rightarrow> payload \<Rightarrow> bool" where
  "signature_verifies env tok key p =
     (case key of
        None \<Rightarrow> False
      | Some public_key \<Rightarrow>
          jwt_decode env (py_str_token tok) public_key (MEMBRANE_ENCODE_ALGORITHM env) = Inr p)"

text \<open>
  The expiration of a payload has not passed when the configured expiration field is
  there and the clock is not greater than it.
\<close>

definition expiration_not_passed :: "env \<Rightarrow> payload \<Rightarrow> bool" where
  "expiration_not_passed env p =
     (case py_lookup p (MEMBRANE_EXPIRATION_FIELD env) of
        None \<Rightarrow> False
      | Some expired_time \<Rightarrow> py_gt (utcnow_timestamp env) expired_time = Some False)"

text \<open>
  The signature of a client token verifies when the unverified decode yields the
  configured application identifier, the key directory holds that application's public
  key, and the verified decode under that key returns a payload.
\<close>

definition client_signature_verifies :: "env \<Rightarrow> string \<Rightarrow> directory \<Rightarrow> payload \<Rightarrow> bool" where
  "client_signature_verifies env t keys_directory p =
     (case jwt_decode_unverified env t of
        Inl error \<Rightarrow> False
      | Inr unverified_decoded_token \<Rightarrow>
         (case py_lookup unverified_decoded_token (MEMBRANE_APP_ID_FIELD env) of
            None \<Rightarrow> False
          | Some app_id \<Rightarrow>
             (case keys_directory (py_str app_id @ ''_public_key.pem'') of
                None \<Rightarrow> False
              | Some public_key \<Rightarrow>
                  jwt_decode env t public_key (MEMBRANE_ENCODE_ALGORITHM env) = Inr p)))"

section \<open>A concrete environment\<close>

text \<open>
  A small stand-in for the JWT library, used to run the functions on concrete tokens: it
  knows seven tokens, each with the public key that verifies it and its payload, and accepts
  the algorithm \<open>RS256\<close> only. The clock reads 1000. The expiration field is configured
  as \<open>expiration\<close>, a claim name that the library does not interpret: the only expiry
  check on these tokens is the one of \<^verbatim>\<open>jwt_utils.py\<close>. (Under the registered name
  \<open>exp\<close> the library's own decode refuses an expired token, and the verified decode of
  such a token fails before the code compares anything.)
\<close>

definition example_client_payload :: payload where
  "example_client_payload =
     [''app_id'' \<mapsto> JStr ''app1'', ''redirect_url'' \<mapsto> JStr ''https://app.example/done'',
      ''expiration'' \<mapsto> JInt 2000]"

definition example_bare_payload :: payload where
  "example_bare_payload = [''app_id'' \<mapsto> JStr ''app1'', ''expiration'' \<mapsto> JInt 2000]"

definition example_blank_payload :: payload where
  "example_blank_payload =
     [''app_id'' \<mapsto> JStr ''app1'', ''redirect_url'' \<mapsto> JStr [], ''expiration'' \<mapsto> JInt 2000]"

definition example_client_old_payload :: payload where
  "example_client_old_payload =
     [''app_id'' \<mapsto> JStr ''app1'', ''redirect_url'' \<mapsto> JStr ''https://app.example/done'',
      ''expiration'' \<mapsto> JInt 500]"

definition example_email_payload :: payload where
  "example_email_payload =
     [''sub'' \<mapsto> JStr ''user@example.com'', ''redirect_url'' \<mapsto> JStr ''https://app.example/done'',
      ''expiration'' \<mapsto> JInt 2000]"

definition example_old_payload :: payload where
  "example_old_payload =
     [''sub'' \<mapsto> JStr ''user@example.com'', ''redirect_url'' \<mapsto> JStr ''https://app.example/done'',
      ''expiration'' \<mapsto> JInt 500]"

definition example_tokens :: "string \<rightharpoonup> string \<times> payload" where
  "example_tokens =
     [''c_good'' \<mapsto> (''K1'', example_client_payload),
      ''c_bare'' \<mapsto> (''K1'', example_bare_payload),
      ''c_blank'' \<mapsto> (''K1'', example_blank_payload),
      ''c_old'' \<mapsto> (''K1'', example_client_old_payload),
      ''good'' \<mapsto> (''PUB'', example_email_payload),
      ''old'' \<mapsto> (''PUB'', example_old_payload),
      ''forged'' \<mapsto> (''EVIL'', example_old_payload)]"

definition example_decode_unverified :: "string \<Rightarrow> jwt_exception + payload" where
  "example_decode_unverified t =
     (case example_tokens t of None \<Rightarrow> Inl Lib_InvalidTokenError | Some (k, p) \<Rightarrow> Inr p)"

definition example_decode :: "string \<Rightarrow> string \<Rightarrow> string option \<Rightarrow> jwt_exception + payload" where
  "example_decode t key alg =
     (case example_tokens t of
        None \<Rightarrow> Inl Lib_InvalidTokenError
      | Some (k, p) \<Rightarrow> if key = k \<and> alg = Some ''RS256'' then Inr p else Inl Lib_InvalidTokenError)"

definition example_encode :: "payload \<Rightarrow> string \<Rightarrow> string option \<Rightarrow> jwt_exception + string" where
  "example_encode p key alg =
     (if key = ''PRIV'' \<and> alg = Some ''RS256'' then Inr ''good'' else Inl Lib_OtherError)"

definition example_env :: env where
  "example_env =
     \<lparr> MEMBRANE_APP_ID_FIELD = Some ''app_id'',
       MEMBRANE_REDIRECT_URL_FIELD = Some ''redirect_url'',
       MEMBRANE_EXPIRATION_FIELD = Some ''expiration'',
       MEMBRANE_ENCODE_ALGORITHM = Some ''RS256'',
       utcnow_timestamp = 1000,
       jwt_decode_unverified = example_decode_unverified,
       jwt_decode = example_decode,
       jwt_encode = example_encode \<rparr>"

definition example_keys :: directory where
  "example_keys = [''app1_public_key.pem'' \<mapsto> ''K1'']"

text \<open>The same environment with the clock at another reading.\<close>

definition example_env_at :: "rat \<Rightarrow> env" where
  "example_env_at now = example_env \<lparr> utcnow_timestamp := now \<rparr>"

lemmas example_defs =
  example_env_def example_keys_def example_decode_def example_decode_unverified_def
  example_encode_def example_tokens_def example_client_payload_def example_bare_payload_def
  example_blank_payload_def example_client_old_payload_def example_email_payload_def
  example_old_payload_def

lemmas email_flow_defs =
  redirect_to_client_app_using_verification_token_def process_email_verification_token_def
  decode_email_verification_token_def

section \<open>Facts about the email flow\<close>

lemma decode_email_InrD:
  assumes "decode_email_verification_token env tok key bl = Inr p"
  shows "\<not> falsy_token tok" and "tok \<notin> bl" and "signature_verifies env tok key p"
    and "py_lookup p (MEMBRANE_REDIRECT_URL_FIELD env) \<noteq> None"
    and "expiration_not_passed env p"
  using assms
  by (auto simp: decode_email_verification_token_def signature_verifies_def
      expiration_not_passed_def split: if_splits option.splits sum.splits)

lemma decode_email_Blacklisted_iff:
  "decode_email_verification_token env tok key bl = Inl BlacklistedTokenError
     \<longleftrightarrow> \<not> falsy_token tok \<and> tok \<in> bl"
  by (auto simp: decode_email_verification_token_def
      split: option.splits sum.splits jwt_exception.splits elim: email_handler.elims)

text \<open>
  The lookup of the redirect field after a successful decode cannot fail, so
  \<^verbatim>\<open>process_email_verification_token\<close> has two outcomes only.
\<close>

lemma process_email_cases:
  "process_email_verification_token env tok key bl =
     (case decode_email_verification_token env tok key bl of
        Inl error \<Rightarrow> (Inl error, bl)
      | Inr p \<Rightarrow>
          (Inr (Redirect (JStr (py_str (the (py_lookup p (MEMBRANE_REDIRECT_URL_FIELD env)))
                  @ ''?token='' @ py_str_token tok)) (Some 302)),
           insert tok bl))"
  by (auto simp: process_email_verification_token_def Let_def
      split: sum.splits option.splits dest: decode_email_InrD(4))

lemma wrapper_cases:
  "redirect_to_client_app_using_verification_token env tok key bl =
     (case decode_email_verification_token env tok key bl of
        Inr p \<Rightarrow> process_email_verification_token env tok key bl
      | Inl error \<Rightarrow>
          if error = BlacklistedTokenError then
            (case decode_email_verification_token env tok key {} of
               Inl error2 \<Rightarrow>
                 (Inl (if error2 = InvalidTokenError then InvalidEmailTokenError else error2), bl)
             | Inr p \<Rightarrow> (Inr (Redirect (the (py_lookup p (MEMBRANE_REDIRECT_URL_FIELD env))) None), bl))
          else (Inl error, bl))"
  by (auto simp: redirect_to_client_app_using_verification_token_def process_email_cases
      decode_email_Blacklisted_iff
      split: sum.splits option.splits prod.splits dest: decode_email_InrD(4))

text \<open>
  Once the checks that come before the expiry check have passed, the outcome of either
  verifier is decided by the expiry comparison alone.
\<close>

lemma decode_client_verified:
  assumes "t \<noteq> []" and "client_signature_verifies env t keys_directory p"
    and "py_lookup p (MEMBRANE_REDIRECT_URL_FIELD env) = Some url" and "truthy url"
    and "py_lookup p (MEMBRANE_EXPIRATION_FIELD env) = Some (JInt e)"
  shows "decode_client_jwt_token env (Some t) keys_directory
     = (if py_int (utcnow_timestamp env) > e then Inl JWTExpired else Inr p)"
  using assms
  by (auto simp: decode_client_jwt_token_def client_signature_verifies_def
      split: sum.splits option.splits)

lemma decode_email_verified:
  assumes "t \<noteq> []" and "Some t \<notin> bl" and "signature_verifies env (Some t) key p"
    and "py_lookup p (MEMBRANE_REDIRECT_URL_FIELD env) = Some url"
    and "py_lookup p (MEMBRANE_EXPIRATION_FIELD env) = Some (JInt e)"
  shows "decode_email_verification_token env (Some t) key bl
     = (if utcnow_timestamp env > of_int e then Inl JWTExpired else Inr p)"
  using assms
  by (auto simp: decode_email_verification_token_def signature_verifies_def
      split: sum.splits option.splits)

text \<open>
  Every exception of \<^verbatim>\<open>decode_client_jwt_token\<close> is an \<^verbatim>\<open>Exception\<close>, so
  \<^verbatim>\<open>login_redirect_with_client_jwt\<close> raises nothing but
  \<^verbatim>\<open>InvalidClientTokenError\<close>.
\<close>

lemma login_redirect_failure:
  "login_redirect_with_client_jwt env tok keys_directory frontend = Inl error
     \<Longrightarrow> error = InvalidClientTokenError"
  by (auto simp: login_redirect_with_client_jwt_def split: sum.splits)

section \<open>Acceptance of email-verification tokens\<close>

text \<open>
  C1 (as amended). \<^verbatim>\<open>decode_email_verification_token\<close> and
  \<^verbatim>\<open>process_email_verification_token\<close> accept a token only if its signature
  verifies against the server public key, its expiration has not passed and it is absent
  from the blacklist. The wrapper \<^verbatim>\<open>redirect_to_client_app_using_verification_token\<close>
  accepts a token only if its signature verifies and its expiration has not passed; it
  does not require the token to be absent from the blacklist.
\<close>

theorem email_token_acceptance:
  "(decode_email_verification_token env tok key bl = Inr p \<longrightarrow>
      signature_verifies env tok key p \<and> expiration_not_passed env p \<and> tok \<notin> bl)
   \<and> (fst (process_email_verification_token env tok key bl) = Inr resp \<longrightarrow>
      (\<exists>q. signature_verifies env tok key q \<and> expiration_not_passed env q) \<and> tok \<notin> bl)
   \<and> (fst (redirect_to_client_app_using_verification_token env tok key bl) = Inr resp' \<longrightarrow>
      (\<exists>q. signature_verifies env tok key q \<and> expiration_not_passed env q))"
proof (intro conjI impI)
  assume "decode_email_verification_token env tok key bl = Inr p"
  then show "signature_verifies env tok key p" "expiration_not_passed env p" "tok \<notin> bl"
    by (auto dest: decode_email_InrD)
next
  assume "fst (process_email_verification_token env tok key bl) = Inr resp"
  then obtain q where "decode_email_verification_token env tok key bl = Inr q"
    by (auto simp: process_email_cases split: sum.splits)
  then show "\<exists>q. signature_verifies env tok key q \<and> expiration_not_passed env q" "tok \<notin> bl"
    by (auto dest: decode_email_InrD)
next
  assume "fst (redirect_to_client_app_using_verification_token env tok key bl) = Inr resp'"
  then consider q where "decode_email_verification_token env tok key bl = Inr q"
    | q where "decode_email_verification_token env tok key {} = Inr q"
    by (auto simp: wrapper_cases split: sum.splits if_splits)
  then show "\<exists>q. signature_verifies env tok key q \<and> expiration_not_passed env q"
    by cases (auto dest: decode_email_InrD)
qed

theorem email_token_acceptance_witness:
  "decode_email_verification_token example_env (Some ''good'') (Some ''PUB'') {} = Inr example_email_payload
   \<and> fst (process_email_verification_token example_env (Some ''good'') (Some ''PUB'') {})
       = Inr (Redirect (JStr ''https://app.example/done?token=good'') (Some 302))
   \<and> fst (redirect_to_client_app_using_verification_token example_env (Some ''good'') (Some ''PUB'') {})
       = Inr (Redirect (JStr ''https://app.example/done?token=good'') (Some 302))
   \<and> signature_verifies example_env (Some ''good'') (Some ''PUB'') example_email_payload
   \<and> expiration_not_passed example_env example_email_payload
   \<and> Some ''good'' \<notin> ({} :: token set)"
proof -
  have h1: "decode_email_verification_token example_env (Some ''good'') (Some ''PUB'') {}
      = Inr example_email_payload"
    by (simp add: email_flow_defs example_defs)
  have h2: "fst (process_email_verification_token example_env (Some ''good'') (Some ''PUB'') {})
      = Inr (Redirect (JStr ''https://app.example/done?token=good'') (Some 302))"
    by (simp add: email_flow_defs example_defs)
  have h3: "fst (redirect_to_client_app_using_verification_token example_env (Some ''good'') (Some ''PUB'') {})
      = Inr (Redirect (JStr ''https://app.example/done?token=good'') (Some 302))"
    by (simp add: email_flow_defs example_defs)
  from email_token_acceptance [of example_env "Some ''good''" "Some ''PUB''" "{}" example_email_payload]
    h1 h2 h3
  show ?thesis by simp
qed

text \<open>
  C1 as stated fails for the wrapper: the token \<open>good\<close> is in the blacklist, and the
  wrapper returns a redirect for it.
\<close>

theorem fallback_accepts_blacklisted_token:
  "fst (redirect_to_client_app_using_verification_token example_env (Some ''good'') (Some ''PUB'')
          {Some ''good''})
     = Inr (Redirect (JStr ''https://app.example/done'') None)
   \<and> Some ''good'' \<in> {Some ''good''}"
  by (simp add: email_flow_defs example_defs)

section \<open>The fallback of the wrapper\<close>

text \<open>
  When the first attempt of \<^verbatim>\<open>redirect_to_client_app_using_verification_token\<close>
  finds the token blacklisted, the wrapper decodes the token again without the blacklist:
  if that decode succeeds it returns a redirect to the decoded redirect URL and leaves the
  blacklist as it is; if that decode fails with \<^verbatim>\<open>InvalidTokenError\<close> it raises
  \<^verbatim>\<open>InvalidEmailTokenError\<close>.
\<close>

lemma fallback_after_blacklisted:
  "(fst (process_email_verification_token env tok key bl) = Inl BlacklistedTokenError
      \<and> decode_email_verification_token env tok key {} = Inr p \<longrightarrow>
        (\<exists>url. py_lookup p (MEMBRANE_REDIRECT_URL_FIELD env) = Some url
           \<and> redirect_to_client_app_using_verification_token env tok key bl
               = (Inr (Redirect url None), bl)))
   \<and> (fst (process_email_verification_token env tok key bl) = Inl BlacklistedTokenError
      \<and> decode_email_verification_token env tok key {} = Inl InvalidTokenError \<longrightarrow>
        redirect_to_client_app_using_verification_token env tok key bl
          = (Inl InvalidEmailTokenError, bl))"
proof (intro conjI impI)
  assume a: "fst (process_email_verification_token env tok key bl) = Inl BlacklistedTokenError
      \<and> decode_email_verification_token env tok key {} = Inr p"
  then have b: "decode_email_verification_token env tok key bl = Inl BlacklistedTokenError"
    by (auto simp: process_email_cases split: sum.splits)
  from a obtain url where u: "py_lookup p (MEMBRANE_REDIRECT_URL_FIELD env) = Some url"
    using decode_email_InrD(4) by blast
  with a b show "\<exists>url. py_lookup p (MEMBRANE_REDIRECT_URL_FIELD env) = Some url
           \<and> redirect_to_client_app_using_verification_token env tok key bl
               = (Inr (Redirect url None), bl)"
    by (simp add: wrapper_cases)
next
  assume a: "fst (process_email_verification_token env tok key bl) = Inl BlacklistedTokenError
      \<and> decode_email_verification_token env tok key {} = Inl InvalidTokenError"
  then have "decode_email_verification_token env tok key bl = Inl BlacklistedTokenError"
    by (auto simp: process_email_cases split: sum.splits)
  with a show "redirect_to_client_app_using_verification_token env tok key bl
          = (Inl InvalidEmailTokenError, bl)"
    by (simp add: wrapper_cases)
qed

text \<open>
  C2. The first attempt on the token \<open>forged\<close>, which is not blacklisted, fails because
  its signature does not verify, and a decode without the blacklist fails in the same way.
  The wrapper does not go on to a second attempt and does not raise
  \<^verbatim>\<open>InvalidEmailTokenError\<close>: it raises the \<^verbatim>\<open>InvalidTokenError\<close> of the first
  attempt again.
\<close>

theorem invalid_token_not_retried:
  "fst (process_email_verification_token example_env (Some ''forged'') (Some ''PUB'') {})
     = Inl InvalidTokenError
   \<and> decode_email_verification_token example_env (Some ''forged'') (Some ''PUB'') {}
     = Inl InvalidTokenError
   \<and> fst (redirect_to_client_app_using_verification_token example_env (Some ''forged'') (Some ''PUB'') {})
     = Inl InvalidTokenError
   \<and> InvalidTokenError \<noteq> InvalidEmailTokenError"
  by (simp add: email_flow_defs example_defs)

section \<open>Expiry\<close>

text \<open>
  C3 (as amended). A client token that is not empty, whose signature verifies, whose
  redirect field is present and not empty and whose integer expiration is strictly less
  than the clock truncated to whole seconds fails with \<^verbatim>\<open>JWTExpired\<close>. An email
  token that is not empty and not blacklisted, whose signature verifies, whose redirect
  field is present and whose integer expiration is strictly less than the clock fails with
  \<^verbatim>\<open>JWTExpired\<close>.
\<close>

theorem expired_token_rejected:
  "(t \<noteq> [] \<and> client_signature_verifies env t keys_directory p
      \<and> py_lookup p (MEMBRANE_REDIRECT_URL_FIELD env) = Some url \<and> truthy url
      \<and> py_lookup p (MEMBRANE_EXPIRATION_FIELD env) = Some (JInt e)
      \<and> e < py_int (utcnow_timestamp env)
      \<longrightarrow> decode_client_jwt_token env (Some t) keys_directory = Inl JWTExpired)
   \<and> (t' \<noteq> [] \<and> Some t' \<notin> bl \<and> signature_verifies env (Some t') key p'
      \<and> py_lookup p' (MEMBRANE_REDIRECT_URL_FIELD env) = Some url'
      \<and> py_lookup p' (MEMBRANE_EXPIRATION_FIELD env) = Some (JInt e')
      \<and> of_int e' < utcnow_timestamp env
      \<longrightarrow> decode_email_verification_token env (Some t') key bl = Inl JWTExpired)"
proof (intro conjI impI; elim conjE)
  assume checks: "t \<noteq> []" "client_signature_verifies env t keys_directory p"
    "py_lookup p (MEMBRANE_REDIRECT_URL_FIELD env) = Some url" "truthy url"
    "py_lookup p (MEMBRANE_EXPIRATION_FIELD env) = Some (JInt e)"
    and late: "e < py_int (utcnow_timestamp env)"
  from checks have "decode_client_jwt_token env (Some t) keys_directory
     = (if py_int (utcnow_timestamp env) > e then Inl JWTExpired else Inr p)"
    by (rule decode_client_verified)
  with late show "decode_client_jwt_token env (Some t) keys_directory = Inl JWTExpired"
    by simp
next
  assume checks: "t' \<noteq> []" "Some t' \<notin> bl" "signature_verifies env (Some t') key p'"
    "py_lookup p' (MEMBRANE_REDIRECT_URL_FIELD env) = Some url'"
    "py_lookup p' (MEMBRANE_EXPIRATION_FIELD env) = Some (JInt e')"
    and late: "of_int e' < utcnow_timestamp env"
  from checks have "decode_email_verification_token env (Some t') key bl
     = (if utcnow_timestamp env > of_int e' then Inl JWTExpired else Inr p')"
    by (rule decode_email_verified)
  with late show "decode_email_verification_token env (Some t') key bl = Inl JWTExpired"
    by simp
qed

theorem expired_token_rejected_witness:
  "decode_client_jwt_token example_env (Some ''c_old'') example_keys = Inl JWTExpired
   \<and> decode_email_verification_token example_env (Some ''old'') (Some ''PUB'') {} = Inl JWTExpired"
proof -
  have c: "''c_old'' \<noteq> [] \<and> client_signature_verifies example_env ''c_old'' example_keys example_client_old_payload
      \<and> py_lookup example_client_old_payload (MEMBRANE_REDIRECT_URL_FIELD example_env)
          = Some (JStr ''https://app.example/done'')
      \<and> truthy (JStr ''https://app.example/done'')
      \<and> py_lookup example_client_old_payload (MEMBRANE_EXPIRATION_FIELD example_env) = Some (JInt 500)
      \<and> 500 < py_int (utcnow_timestamp example_env)"
    by (simp add: client_signature_verifies_def example_defs py_int_def)
  have e: "''old'' \<noteq> [] \<and> Some ''old'' \<notin> ({} :: token set)
      \<and> signature_verifies example_env (Some ''old'') (Some ''PUB'') example_old_payload
      \<and> py_lookup example_old_payload (MEMBRANE_REDIRECT_URL_FIELD example_env)
          = Some (JStr ''https://app.example/done'')
      \<and> py_lookup example_old_payload (MEMBRANE_EXPIRATION_FIELD example_env) = Some (JInt 500)
      \<and> of_int 500 < utcnow_timestamp example_env"
    by (simp add: signature_verifies_def example_defs)
  from expired_token_rejected
    [where env = example_env and t = "''c_old''" and keys_directory = example_keys
       and p = example_client_old_payload and url = "JStr ''https://app.example/done''" and e = 500
       and t' = "''old''" and bl = "{}" and key = "Some ''PUB''" and p' = example_old_payload
       and url' = "JStr ''https://app.example/done''" and e' = 500]
    c e
  show ?thesis by blast
qed

text \<open>
  C3 as stated fails: the expiration claim of the token \<open>forged\<close> is 500, the clock
  reads 1000, and its signature does not verify under the server key; verification fails
  with \<^verbatim>\<open>InvalidTokenError\<close>, not with \<^verbatim>\<open>JWTExpired\<close>.
\<close>

theorem expired_forged_token_not_reported_expired:
  "jwt_decode_unverified example_env ''forged'' = Inr example_old_payload
   \<and> py_lookup example_old_payload (MEMBRANE_EXPIRATION_FIELD example_env) = Some (JInt 500)
   \<and> of_int 500 < utcnow_timestamp example_env
   \<and> decode_email_verification_token example_env (Some ''forged'') (Some ''PUB'') {}
       = Inl InvalidTokenError"
  by (simp add: email_flow_defs example_defs)

text \<open>
  C4 (as amended). Once the checks before it have passed (the token is not empty, its
  signature verifies, the redirect field is present, and not empty on the client path, the
  token is not blacklisted on the email path) and the expiration field is an integer, the
  expiry check is a strict comparison. On the email path the token is reported expired
  exactly when the clock is greater than the expiration. On the client path it is reported
  expired exactly when \<^verbatim>\<open>int(datetime.utcnow().timestamp())\<close>, the clock truncated to
  whole seconds, is greater than the expiration. On both paths the token is accepted when
  the compared time equals the expiration.
\<close>

theorem expiry_strict_comparison:
  "(t \<noteq> [] \<and> client_signature_verifies env t keys_directory p
      \<and> py_lookup p (MEMBRANE_REDIRECT_URL_FIELD env) = Some url \<and> truthy url
      \<and> py_lookup p (MEMBRANE_EXPIRATION_FIELD env) = Some (JInt e)
      \<longrightarrow> decode_client_jwt_token env (Some t) keys_directory
            = (if py_int (utcnow_timestamp env) > e then Inl JWTExpired else Inr p))
   \<and> (t' \<noteq> [] \<and> Some t' \<notin> bl \<and> signature_verifies env (Some t') key p'
      \<and> py_lookup p' (MEMBRANE_REDIRECT_URL_FIELD env) = Some url'
      \<and> py_lookup p' (MEMBRANE_EXPIRATION_FIELD env) = Some (JInt e')
      \<longrightarrow> decode_email_verification_token env (Some t') key bl
            = (if utcnow_timestamp env > of_int e' then Inl JWTExpired else Inr p'))"
proof (intro conjI impI; elim conjE)
  assume "t \<noteq> []" "client_signature_verifies env t keys_directory p"
    "py_lookup p (MEMBRANE_REDIRECT_URL_FIELD env) = Some url" "truthy url"
    "py_lookup p (MEMBRANE_EXPIRATION_FIELD env) = Some (JInt e)"
  then show "decode_client_jwt_token env (Some t) keys_directory
     = (if py_int (utcnow_timestamp env) > e then Inl JWTExpired else Inr p)"
    by (rule decode_client_verified)
next
  assume "t' \<noteq> []" "Some t' \<notin> bl" "signature_verifies env (Some t') key p'"
    "py_lookup p' (MEMBRANE_REDIRECT_URL_FIELD env) = Some url'"
    "py_lookup p' (MEMBRANE_EXPIRATION_FIELD env) = Some (JInt e')"
  then show "decode_email_verification_token env (Some t') key bl
     = (if utcnow_timestamp env > of_int e' then Inl JWTExpired else Inr p')"
    by (rule decode_email_verified)
qed

theorem expiry_strict_comparison_witness:
  "decode_client_jwt_token (example_env_at 2000) (Some ''c_good'') example_keys = Inr example_client_payload
   \<and> decode_email_verification_token (example_env_at 2000) (Some ''good'') (Some ''PUB'') {}
       = Inr example_email_payload
   \<and> decode_client_jwt_token (example_env_at 2001) (Some ''c_good'') example_keys = Inl JWTExpired
   \<and> decode_email_verification_token (example_env_at 2001) (Some ''good'') (Some ''PUB'') {}
       = Inl JWTExpired"
proof -
  have c: "''c_good'' \<noteq> [] \<and> client_signature_verifies (example_env_at now) ''c_good'' example_keys example_client_payload
      \<and> py_lookup example_client_payload (MEMBRANE_REDIRECT_URL_FIELD (example_env_at now))
          = Some (JStr ''https://app.example/done'')
      \<and> truthy (JStr ''https://app.example/done'')
      \<and> py_lookup example_client_payload (MEMBRANE_EXPIRATION_FIELD (example_env_at now)) = Some (JInt 2000)"
    for now
    by (simp add: client_signature_verifies_def example_env_at_def example_defs)
  have e: "''good'' \<noteq> [] \<and> Some ''good'' \<notin> ({} :: token set)
      \<and> signature_verifies (example_env_at now) (Some ''good'') (Some ''PUB'') example_email_payload
      \<and> py_lookup example_email_payload (MEMBRANE_REDIRECT_URL_FIELD (example_env_at now))
          = Some (JStr ''https://app.example/done'')
      \<and> py_lookup example_email_payload (MEMBRANE_EXPIRATION_FIELD (example_env_at now)) = Some (JInt 2000)"
    for now
    by (simp add: signature_verifies_def example_env_at_def example_defs)
  have n: "py_int (utcnow_timestamp (example_env_at 2000)) = 2000"
    "py_int (utcnow_timestamp (example_env_at 2001)) = 2001"
    "utcnow_timestamp (example_env_at 2000) = 2000" "utcnow_timestamp (example_env_at 2001) = 2001"
    by (simp_all add: example_env_at_def py_int_def)
  note T = expiry_strict_comparison
    [where t = "''c_good''" and keys_directory = example_keys
       and p = example_client_payload and url = "JStr ''https://app.example/done''" and e = 2000
       and t' = "''good''" and bl = "{}" and key = "Some ''PUB''" and p' = example_email_payload
       and url' = "JStr ''https://app.example/done''" and e' = 2000]
  from T [where env = "example_env_at 2000"] T [where env = "example_env_at 2001"]
    c [of 2000] e [of 2000] c [of 2001] e [of 2001] n
  show ?thesis by simp
qed

text \<open>
  C4 as stated fails on the client path: the expiration of the token \<open>c_good\<close> is 2000
  and the clock reads 2000.5, so the current time is greater than the expiration, and the
  client verifier accepts the token, because it compares whole seconds. The email verifier
  reports a token with the same expiration expired at that clock.
\<close>

theorem client_expiry_compares_whole_seconds:
  "py_lookup example_client_payload (MEMBRANE_EXPIRATION_FIELD (example_env_at (4001 / 2)))
     = Some (JInt 2000)
   \<and> utcnow_timestamp (example_env_at (4001 / 2)) > of_int 2000
   \<and> decode_client_jwt_token (example_env_at (4001 / 2)) (Some ''c_good'') example_keys
     = Inr example_client_payload
   \<and> decode_email_verification_token (example_env_at (4001 / 2)) (Some ''good'') (Some ''PUB'') {}
     = Inl JWTExpired"
  by (simp add: decode_client_jwt_token_def email_flow_defs example_env_at_def example_defs py_int_def)

section \<open>Round trip\<close>

text \<open>
  C5. Let the library encode the payload to a token under the server private key and
  decode that token back to the payload under the server public key, with the configured
  algorithm. If the payload holds the configured redirect field and an integer expiration
  in the future, then \<^verbatim>\<open>encode_email_verification_token\<close> returns that token and
  \<^verbatim>\<open>decode_email_verification_token\<close>, with an empty blacklist, returns the
  original payload.
\<close>

theorem email_token_round_trip:
  assumes "jwt_encode env payload private_key (MEMBRANE_ENCODE_ALGORITHM env) = Inr tok"
    and "tok \<noteq> []"
    and "jwt_decode env tok public_key (MEMBRANE_ENCODE_ALGORITHM env) = Inr payload"
    and "py_lookup payload (MEMBRANE_REDIRECT_URL_FIELD env) = Some url"
    and "py_lookup payload (MEMBRANE_EXPIRATION_FIELD env) = Some (JInt e)"
    and "utcnow_timestamp env < of_int e"
  shows "encode_email_verification_token env payload (Some private_key) = Inr tok
     \<and> decode_email_verification_token env (Some tok) (Some public_key) {} = Inr payload"
  using assms
  by (simp add: encode_email_verification_token_def decode_email_verification_token_def)

theorem email_token_round_trip_witness:
  "encode_email_verification_token example_env example_email_payload (Some ''PRIV'') = Inr ''good''
   \<and> decode_email_verification_token example_env (Some ''good'') (Some ''PUB'') {}
       = Inr example_email_payload"
proof -
  have "jwt_encode example_env example_email_payload ''PRIV'' (MEMBRANE_ENCODE_ALGORITHM example_env)
      = Inr ''good''"
    and "''good'' \<noteq> []"
    and "jwt_decode example_env ''good'' ''PUB'' (MEMBRANE_ENCODE_ALGORITHM example_env)
      = Inr example_email_payload"
    and "py_lookup example_email_payload (MEMBRANE_REDIRECT_URL_FIELD example_env)
      = Some (JStr ''https://app.example/done'')"
    and "py_lookup example_email_payload (MEMBRANE_EXPIRATION_FIELD example_env) = Some (JInt 2000)"
    and "utcnow_timestamp example_env < of_int 2000"
    by (simp_all add: example_defs)
  then show ?thesis by (rule email_token_round_trip)
qed

section \<open>Error kinds\<close>

text \<open>
  C6. The client token \<open>c_bare\<close> passes signature verification and its payload has
  no redirect field: \<^verbatim>\<open>decode_client_jwt_token\<close> raises \<^verbatim>\<open>KeyError\<close>, which
  is not a \<^verbatim>\<open>JWTError\<close>. The email verifier raises \<^verbatim>\<open>JWTError\<close> on the same
  payload.
\<close>

theorem missing_redirect_field_raises_KeyError:
  "client_signature_verifies example_env ''c_bare'' example_keys example_bare_payload
   \<and> py_lookup example_bare_payload (MEMBRANE_REDIRECT_URL_FIELD example_env) = None
   \<and> decode_client_jwt_token example_env (Some ''c_bare'') example_keys = Inl KeyError
   \<and> is_JWTError KeyError = False
   \<and> decode_email_verification_token example_env (Some ''c_bare'') (Some ''K1'') {} = Inl JWTError"
  by (simp add: decode_client_jwt_token_def client_signature_verifies_def email_flow_defs
      example_defs py_int_def)

text \<open>
  C7 (as amended). Both verifiers reject a token that is \<^verbatim>\<open>None\<close> or empty with
  the base class \<^verbatim>\<open>JWTError\<close>, whatever the library, the clock, the keys and the
  blacklist are: nothing is decoded and no key is looked up.
\<close>

theorem falsy_token_rejected:
  "falsy_token jwt_token \<Longrightarrow>
     decode_client_jwt_token env jwt_token keys_directory = Inl JWTError
     \<and> decode_email_verification_token env jwt_token server_public_key_path token_blacklist
         = Inl JWTError"
  by (simp add: decode_client_jwt_token_def decode_email_verification_token_def)

theorem falsy_token_rejected_witness:
  "decode_client_jwt_token example_env None example_keys = Inl JWTError
   \<and> decode_email_verification_token example_env None (Some ''PUB'') {} = Inl JWTError
   \<and> decode_client_jwt_token example_env (Some []) example_keys = Inl JWTError
   \<and> decode_email_verification_token example_env (Some []) (Some ''PUB'') {} = Inl JWTError"
proof -
  have "falsy_token None" and "falsy_token (Some [])"
    by simp_all
  then show ?thesis
    using falsy_token_rejected [of None] falsy_token_rejected [of "Some []"] by simp
qed

text \<open>
  C7 as stated fails: the exception for a missing token is of the same class as the one
  for an empty redirect field (client path) and for a missing redirect field (email path),
  and it is not \<^verbatim>\<open>MissingTokenError\<close>.
\<close>

theorem missing_token_error_not_distinct:
  "decode_client_jwt_token example_env None example_keys = Inl JWTError
   \<and> decode_client_jwt_token example_env (Some ''c_blank'') example_keys = Inl JWTError
   \<and> decode_email_verification_token example_env None (Some ''PUB'') {} = Inl JWTError
   \<and> decode_email_verification_token example_env (Some ''c_bare'') (Some ''K1'') {} = Inl JWTError
   \<and> JWTError \<noteq> MissingTokenError"
  by (simp add: decode_client_jwt_token_def email_flow_defs example_defs py_int_def)

text \<open>
  C8. Exceptions other than \<^verbatim>\<open>InvalidEmailTokenError\<close> leave
  \<^verbatim>\<open>redirect_to_client_app_using_verification_token\<close>, since no handler of either
  attempt catches them: \<^verbatim>\<open>JWTExpired\<close> for an expired token, blacklisted or not,
  and the base \<^verbatim>\<open>JWTError\<close> for a missing token.
\<close>

theorem email_flow_leaks_low_level_errors:
  "fst (redirect_to_client_app_using_verification_token example_env (Some ''old'') (Some ''PUB'') {})
     = Inl JWTExpired
   \<and> fst (redirect_to_client_app_using_verification_token example_env (Some ''old'') (Some ''PUB'')
            {Some ''old''})
     = Inl JWTExpired
   \<and> fst (redirect_to_client_app_using_verification_token example_env None (Some ''PUB'') {})
     = Inl JWTError
   \<and> JWTExpired \<noteq> InvalidEmailTokenError \<and> JWTError \<noteq> InvalidEmailTokenError"
  by (simp add: email_flow_defs example_defs)

section \<open>Consumption is atomic\<close>

text \<open>
  C9. Whenever \<^verbatim>\<open>process_email_verification_token\<close> raises, whatever the exception,
  the blacklist is as it was before the call; and when the blacklist has changed, the
  decode and validation of the token have succeeded and the blacklist has gained exactly
  that token.
\<close>

theorem process_email_verification_token_atomic:
  "(\<forall>error. fst (process_email_verification_token env email_token server_public_key token_blacklist)
        = Inl error
      \<longrightarrow> snd (process_email_verification_token env email_token server_public_key token_blacklist)
        = token_blacklist)
   \<and> (snd (process_email_verification_token env email_token server_public_key token_blacklist)
        \<noteq> token_blacklist
      \<longrightarrow> (\<exists>p. decode_email_verification_token env email_token server_public_key token_blacklist
                = Inr p)
          \<and> snd (process_email_verification_token env email_token server_public_key token_blacklist)
              = insert email_token token_blacklist)"
  by (simp add: process_email_cases split: sum.splits)

theorem process_email_verification_token_atomic_witness:
  "fst (process_email_verification_token example_env (Some ''forged'') (Some ''PUB'') {Some ''spent''})
     = Inl InvalidTokenError
   \<and> snd (process_email_verification_token example_env (Some ''forged'') (Some ''PUB'') {Some ''spent''})
     = {Some ''spent''}
   \<and> snd (process_email_verification_token example_env (Some ''good'') (Some ''PUB'') {Some ''spent''})
     = {Some ''good'', Some ''spent''}
   \<and> decode_email_verification_token example_env (Some ''good'') (Some ''PUB'') {Some ''spent''}
     = Inr example_email_payload"
proof -
  have h1: "fst (process_email_verification_token example_env (Some ''forged'') (Some ''PUB'') {Some ''spent''})
     = Inl InvalidTokenError"
    by (simp add: email_flow_defs example_defs)
  have h2: "snd (process_email_verification_token example_env (Some ''good'') (Some ''PUB'') {Some ''spent''})
     \<noteq> {Some ''spent''}"
    by (simp add: email_flow_defs example_defs)
  have d: "decode_email_verification_token example_env (Some ''good'') (Some ''PUB'') {Some ''spent''}
     = Inr example_email_payload"
    by (simp add: email_flow_defs example_defs)
  from process_email_verification_token_atomic
         [of example_env "Some ''forged''" "Some ''PUB''" "{Some ''spent''}"] h1
  have c1: "snd (process_email_verification_token example_env (Some ''forged'') (Some ''PUB'') {Some ''spent''})
     = {Some ''spent''}"
    by blast
  from process_email_verification_token_atomic
         [of example_env "Some ''good''" "Some ''PUB''" "{Some ''spent''}"] h2
  have c2: "snd (process_email_verification_token example_env (Some ''good'') (Some ''PUB'') {Some ''spent''})
     = {Some ''good'', Some ''spent''}"
    by blast
  from h1 c1 c2 d show ?thesis by simp
qed

section \<open>Redirect targets\<close>

text \<open>
  C10. When \<^verbatim>\<open>process_email_verification_token\<close> succeeds, its redirect goes to
  the decoded redirect URL followed by \<open>?token=\<close> and the raw token. When the wrapper
  succeeds after the first attempt found the token blacklisted, its redirect goes to the
  bare decoded redirect URL, which is a different target.
\<close>

theorem primary_and_fallback_targets:
  "(fst (process_email_verification_token env tok key bl) = Inr resp \<longrightarrow>
      (\<exists>t p url. tok = Some t
         \<and> decode_email_verification_token env tok key bl = Inr p
         \<and> py_lookup p (MEMBRANE_REDIRECT_URL_FIELD env) = Some url
         \<and> resp = Redirect (JStr (py_str url @ ''?token='' @ t)) (Some 302)))
   \<and> (fst (process_email_verification_token env tok key bl) = Inl BlacklistedTokenError
      \<and> fst (redirect_to_client_app_using_verification_token env tok key bl) = Inr resp' \<longrightarrow>
      (\<exists>t p url. tok = Some t
         \<and> decode_email_verification_token env tok key {} = Inr p
         \<and> py_lookup p (MEMBRANE_REDIRECT_URL_FIELD env) = Some url
         \<and> resp' = Redirect url None
         \<and> location resp' \<noteq> JStr (py_str url @ ''?token='' @ t)))"
proof (intro conjI impI)
  assume "fst (process_email_verification_token env tok key bl) = Inr resp"
  then obtain p where p: "decode_email_verification_token env tok key bl = Inr p"
    and r: "resp = Redirect (JStr (py_str (the (py_lookup p (MEMBRANE_REDIRECT_URL_FIELD env)))
                  @ ''?token='' @ py_str_token tok)) (Some 302)"
    by (auto simp: process_email_cases split: sum.splits)
  from p obtain t where t: "tok = Some t"
    using decode_email_InrD(1) [OF p] by (cases tok) auto
  from p obtain url where "py_lookup p (MEMBRANE_REDIRECT_URL_FIELD env) = Some url"
    using decode_email_InrD(4) by blast
  with p r t show "\<exists>t p url. tok = Some t
         \<and> decode_email_verification_token env tok key bl = Inr p
         \<and> py_lookup p (MEMBRANE_REDIRECT_URL_FIELD env) = Some url
         \<and> resp = Redirect (JStr (py_str url @ ''?token='' @ t)) (Some 302)"
    by auto
next
  assume a: "fst (process_email_verification_token env tok key bl) = Inl BlacklistedTokenError
      \<and> fst (redirect_to_client_app_using_verification_token env tok key bl) = Inr resp'"
  then have b: "decode_email_verification_token env tok key bl = Inl BlacklistedTokenError"
    by (auto simp: process_email_cases split: sum.splits)
  with a obtain p where p: "decode_email_verification_token env tok key {} = Inr p"
    and r: "resp' = Redirect (the (py_lookup p (MEMBRANE_REDIRECT_URL_FIELD env))) None"
    by (auto simp: wrapper_cases split: sum.splits)
  from p obtain t where t: "tok = Some t"
    using decode_email_InrD(1) [OF p] by (cases tok) auto
  from p obtain url where u: "py_lookup p (MEMBRANE_REDIRECT_URL_FIELD env) = Some url"
    using decode_email_InrD(4) by blast
  have "url \<noteq> JStr (py_str url @ ''?token='' @ t)"
    by (cases url) auto
  with p r t u show "\<exists>t p url. tok = Some t
         \<and> decode_email_verification_token env tok key {} = Inr p
         \<and> py_lookup p (MEMBRANE_REDIRECT_URL_FIELD env) = Some url
         \<and> resp' = Redirect url None
         \<and> location resp' \<noteq> JStr (py_str url @ ''?token='' @ t)"
    by auto
qed

theorem primary_and_fallback_targets_witness:
  "fst (process_email_verification_token example_env (Some ''good'') (Some ''PUB'') {})
     = Inr (Redirect (JStr ''https://app.example/done?token=good'') (Some 302))
   \<and> fst (redirect_to_client_app_using_verification_token example_env (Some ''good'') (Some ''PUB'')
            {Some ''good''})
     = Inr (Redirect (JStr ''https://app.example/done'') None)"
proof -
  have h1: "fst (process_email_verification_token example_env (Some ''good'') (Some ''PUB'') {})
     = Inr (Redirect (JStr ''https://app.example/done?token=good'') (Some 302))"
    by (simp add: email_flow_defs example_defs)
  have h2: "fst (process_email_verification_token example_env (Some ''good'') (Some ''PUB'') {Some ''good''})
       = Inl BlacklistedTokenError
     \<and> fst (redirect_to_client_app_using_verification_token example_env (Some ''good'') (Some ''PUB'')
            {Some ''good''})
       = Inr (Redirect (JStr ''https://app.example/done'') None)"
    by (simp add: email_flow_defs example_defs)
  from primary_and_fallback_targets [of example_env "Some ''good''" "Some ''PUB''" "{}"] h1
    primary_and_fallback_targets [of example_env "Some ''good''" "Some ''PUB''" "{Some ''good''}"] h2
  show ?thesis by simp
qed

end
